theory Spec2Isabelle
  imports Complex_Main "HOL-Library.Finite_Map" "HOL-Library.Signed_Division"
begin

section \<open>The rewards-tree submission task of the watchtower\<close>

text \<open>
  This theory embeds the Go file that defines \<^verbatim>\<open>submitRewardsTree\<close> (package
  \<^verbatim>\<open>watchtower\<close>): \<^verbatim>\<open>run\<close>, \<^verbatim>\<open>handleError\<close>, \<^verbatim>\<open>submitRewardsSnapshot\<close>,
  \<^verbatim>\<open>uploadFileToWeb3Storage\<close>, \<^verbatim>\<open>getSnapshotConsensusBlock\<close> and
  \<^verbatim>\<open>hasSubmittedTree\<close>.

  Conventions.
  \<^item> A Go \<^verbatim>\<open>uint64\<close> is a \<open>nat\<close> below \<open>2 ^ 64\<close>; every arithmetic operation of the
    source on such values is written with its wrap-around (\<open>mod 2 ^ 64\<close>).
  \<^item> A \<^verbatim>\<open>time.Duration\<close> is an \<open>int\<close> of nanoseconds in the \<^verbatim>\<open>int64\<close> range; products
    wrap, \<^verbatim>\<open>Time.Sub\<close> saturates, and \<^verbatim>\<open>/\<close> truncates towards zero (\<open>sdiv\<close>).
  \<^item> A \<^verbatim>\<open>time.Time\<close> is an \<open>int\<close>: nanoseconds since the Unix epoch.
  \<^item> A \<^verbatim>\<open>*big.Int\<close> is an \<open>int\<close>.
  \<^item> Every call that leaves the file (contracts, clients, the file system, JSON, the
    storage service) is a field of a record of collaborators, one record per field of the
    Go struct; its result is the value the call returns.
  \<^item> Everything the task does to the outside is appended to a trace of events, in program
    order; the files on disk and the \<^verbatim>\<open>isRunning\<close> flag are state.
\<close>

subsection \<open>Basic data\<close>

type_synonym uint64 = nat
type_synonym bytes = "nat list"
type_synonym path = string
type_synonym address = bytes
type_synonym time = int
type_synonym duration = int

text \<open>Contexts that \<^verbatim>\<open>fmt.Errorf("...: %w", err)\<close> puts around an error, one per call site.\<close>

datatype ctx =
    CtxClaimIntervalStart | CtxClaimIntervalTime | CtxLatestHeader
  | CtxSubmissionProcessed | CtxReadTreeFile | CtxDeserializeTreeFile
  | CtxUploadTree | CtxSubmitSnapshot
  | CtxArchiveConnect | CtxArchiveClient | CtxGenerateTree
  | CtxSerializePerformance | CtxSavePerformance | CtxUploadPerformance
  | CtxSerializeTree | CtxSaveTree
  | CtxDecodeRoot | CtxEstimateGas
  | CtxNewStorageClient | CtxCreateCompressed | CtxWriteCompressed | CtxPut
  | CtxBeaconConfig | CtxBeaconHead | CtxBeaconBlock uint64

datatype error =
    External nat
  | Wrapped ctx error
  | WaitingForFinality time uint64 uint64 uint64 uint64
  | MissingApiToken
  | PanicDivideByZero
  | PanicFillBytes

record networkRewardsInfo =
  CollateralRpl :: int
  OracleDaoRpl :: int
  SmoothingPoolEth :: int

text \<open>
  The fields of \<^verbatim>\<open>rprewards.RewardsFile\<close> that this file reads or writes. The type itself
  is declared in another package; \<open>Others\<close> stands for all its remaining content.
\<close>

record rewardsFile =
  MerkleRoot :: string
  NetworkRewards :: "(uint64, networkRewardsInfo) fmap"
  TotalProtocolDaoRpl :: int
  InvalidNetworkNodes :: "(address \<times> uint64) list"
  MinipoolPerformanceFile :: bytes
  MinipoolPerformanceFileCID :: string
  Others :: bytes

record rewardSubmission =
  RewardIndex :: int
  ExecutionBlock :: int
  ConsensusBlock :: int
  SubMerkleRoot :: bytes
  MerkleTreeCID :: string
  IntervalsPassed :: int
  TreasuryRPL :: int
  NodeRPL :: "int list"
  TrustedNodeRPL :: "int list"
  NodeETH :: "int list"

subsection \<open>The per-network arrays of a submission\<close>

text \<open>
  The loop of \<^verbatim>\<open>submitRewardsSnapshot\<close> that starts at \<^verbatim>\<open>network := uint64(0)\<close>: look the
  network up in the map, stop at the first one that is absent, otherwise append its three
  amounts and go on with \<^verbatim>\<open>network++\<close>. A Go map is finite, and so is an \<open>fmap\<close>; the
  counter could only wrap if all \<open>2 ^ 64\<close> keys were present.
\<close>

function networkArrays ::
  "(uint64, networkRewardsInfo) fmap \<Rightarrow> uint64 \<Rightarrow> int list \<times> int list \<times> int list
     \<Rightarrow> int list \<times> int list \<times> int list" where
  "networkArrays m network (collateralRplRewards, oDaoRplRewards, smoothingPoolEthRewards) =
     (case fmlookup m network of
        None \<Rightarrow> (collateralRplRewards, oDaoRplRewards, smoothingPoolEthRewards)
      | Some networkRewards \<Rightarrow>
          networkArrays m (network + 1)
            (collateralRplRewards @ [CollateralRpl networkRewards],
             oDaoRplRewards @ [OracleDaoRpl networkRewards],
             smoothingPoolEthRewards @ [SmoothingPoolEth networkRewards]))"
  by pat_completeness auto

lemma keys_from_finite: "finite {k. k |\<in>| fmdom m \<and> n \<le> k}"
  by (rule finite_subset [of _ "fset (fmdom m)"]) auto

lemma keys_from_decrease:
  assumes "fmlookup m n = Some v"
  shows "card {k. k |\<in>| fmdom m \<and> Suc n \<le> k} < card {k. k |\<in>| fmdom m \<and> n \<le> k}"
proof (rule psubset_card_mono)
  show "finite {k. k |\<in>| fmdom m \<and> n \<le> k}" by (rule keys_from_finite)
  have "n \<in> {k. k |\<in>| fmdom m \<and> n \<le> k}" using assms by (simp add: fmdomI)
  moreover have "n \<notin> {k. k |\<in>| fmdom m \<and> Suc n \<le> k}" by simp
  moreover have "{k. k |\<in>| fmdom m \<and> Suc n \<le> k} \<subseteq> {k. k |\<in>| fmdom m \<and> n \<le> k}" by auto
  ultimately show "{k. k |\<in>| fmdom m \<and> Suc n \<le> k} \<subset> {k. k |\<in>| fmdom m \<and> n \<le> k}" by blast
qed

termination networkArrays
  by (relation "measure (\<lambda>(m, n, acc). card {k. k |\<in>| fmdom m \<and> n \<le> k})")
     (auto simp: keys_from_decrease)

declare networkArrays.simps [simp del]

text \<open>
  The \<^verbatim>\<open>rewards.RewardSubmission\<close> literal of \<^verbatim>\<open>submitRewardsSnapshot\<close>, with the three
  arrays the loop built. \<open>treeRoot\<close> is the decoded Merkle root.
\<close>

definition makeSubmission ::
  "int \<Rightarrow> uint64 \<Rightarrow> uint64 \<Rightarrow> rewardsFile \<Rightarrow> string \<Rightarrow> int \<Rightarrow> bytes \<Rightarrow> rewardSubmission" where
  "makeSubmission index consensusBlock executionBlock rf cid intervalsPassed treeRoot =
     (case networkArrays (NetworkRewards rf) 0 ([], [], []) of
        (collateralRplRewards, oDaoRplRewards, smoothingPoolEthRewards) \<Rightarrow>
          \<lparr> RewardIndex = index,
            ExecutionBlock = int executionBlock,
            ConsensusBlock = int consensusBlock,
            SubMerkleRoot = treeRoot,
            MerkleTreeCID = cid,
            IntervalsPassed = intervalsPassed,
            TreasuryRPL = TotalProtocolDaoRpl rf,
            NodeRPL = collateralRplRewards,
            TrustedNodeRPL = oDaoRplRewards,
            NodeETH = smoothingPoolEthRewards \<rparr>)"


subsection \<open>Machine integers and time\<close>



definition uint64_of_int64 :: "int \<Rightarrow> uint64" where
  "uint64_of_int64 x = nat (x mod 2 ^ 64)"









subsection \<open>Collaborators\<close>

record header =
  Number :: int
  HeaderTime :: uint64

record eth2Config =
  GenesisTime :: uint64
  SecondsPerSlot :: uint64
  SlotsPerEpoch :: uint64
  SecondsPerEpoch :: uint64

record beaconHead =
  FinalizedEpoch :: uint64

record beaconBlock =
  ExecutionBlockNumber :: uint64

text \<open>\<^verbatim>\<open>t.bc\<close>: the three calls of \<^verbatim>\<open>beacon.Client\<close> that the task makes.\<close>

record beaconClient =
  GetEth2Config :: "error + eth2Config"
  GetBeaconHead :: "error + beaconHead"
  GetBeaconBlock :: "uint64 \<Rightarrow> error + (beaconBlock \<times> bool)"

text \<open>\<^verbatim>\<open>t.ec\<close>: \<^verbatim>\<open>HeaderByNumber\<close>, with \<open>None\<close> for the \<^verbatim>\<open>nil\<close> that asks for the latest.\<close>

record executionClient =
  HeaderByNumber :: "int option \<Rightarrow> error + header"

datatype rewardsMode = RewardsMode_Generate | RewardsMode_Other

text \<open>\<^verbatim>\<open>t.cfg\<close>: the settings, path functions and constants of package \<^verbatim>\<open>config\<close>.\<close>

record rocketPoolConfig =
  RewardsTreeMode :: rewardsMode
  ArchiveECUrl :: string
  Web3StorageApiToken :: string
  GetRewardsTreePath :: "uint64 \<Rightarrow> path"
  GetMinipoolPerformancePath :: "uint64 \<Rightarrow> path"
  RewardsTreeIpfsExtension :: string

record transactOpts =
  GasFeeCap :: int
  GasTipCap :: int
  GasLimit :: uint64

record gasInfo =
  EstGasLimit :: uint64
  SafeGasLimit :: uint64

text \<open>\<^verbatim>\<open>t.w\<close>.\<close>

record wallet =
  GetNodeAccount :: "error + address"
  GetNodeAccountTransactor :: "error + transactOpts"

text \<open>
  \<^verbatim>\<open>t.rp\<close>: the contract reads and the one contract write, as the packages
  \<^verbatim>\<open>trustednode\<close> and \<^verbatim>\<open>rewards\<close> of rocketpool-go offer them.
\<close>

record rocketPool =
  GetMemberExists :: "address \<Rightarrow> error + bool"
  GetClaimIntervalTimeStart :: "error + time"
  GetClaimIntervalTime :: "error + duration"
  GetRewardIndex :: "error + int"
  GetBool :: "bytes \<Rightarrow> error + bool"
  EstimateSubmitRewardSnapshotGas :: "rewardSubmission \<Rightarrow> transactOpts \<Rightarrow> error + gasInfo"
  SubmitRewardSnapshot :: "rewardSubmission \<Rightarrow> transactOpts \<Rightarrow> error + bytes"

text \<open>What a failed write leaves on disk: the file as it was, or some content.\<close>

datatype writeFailure = Untouched | LeftWith bytes

text \<open>The arguments of \<^verbatim>\<open>rprewards.NewRewardsFile\<close> and the client \<^verbatim>\<open>GenerateTree\<close> is given.\<close>

record generateArgs =
  genArchive :: bool
  genIndex :: uint64
  genStartTime :: time
  genEndTime :: time
  genConsensusBlock :: uint64
  genElHeader :: header
  genIntervalsPassed :: uint64

text \<open>
  The functions of other packages and of the standard library: the services, the
  timestamp search, JSON, the file system's failures, hex, hashing, compression, the
  storage client, the gas helpers and the two fee constants of the watchtower package.
\<close>

record externals =
  WaitEthClientSynced :: "error option"
  WaitBeaconClientSynced :: "error option"
  GetELBlockHeaderForTime :: "time \<Rightarrow> error + header"
  ReadFileFault :: "path \<Rightarrow> error option"
  Unmarshal :: "bytes \<Rightarrow> error + rewardsFile"
  MarshalPerformance :: "bytes \<Rightarrow> error + bytes"
  MarshalRewardsFile :: "rewardsFile \<Rightarrow> error + bytes"
  WriteFileFault :: "path \<Rightarrow> bytes \<Rightarrow> (error \<times> writeFailure) option"
  Dial :: "string \<Rightarrow> error option"
  NewRocketPool :: "error option"
  GenerateTree :: "generateArgs \<Rightarrow> error + rewardsFile"
  RemovePrefix :: "string \<Rightarrow> string"
  DecodeString :: "string \<Rightarrow> error + bytes"
  BytesToHash :: "bytes \<Rightarrow> bytes"
  Keccak256Hash :: "bytes \<Rightarrow> bytes"
  NewClient :: "string \<Rightarrow> error option"
  EncodeAll :: "bytes \<Rightarrow> bytes"
  CreateFault :: "path \<Rightarrow> error option"
  FileWriteFault :: "path \<Rightarrow> bytes \<Rightarrow> (error \<times> bytes) option"
  Put :: "bytes \<Rightarrow> error + string"
  GweiToWei :: "real \<Rightarrow> int"
  WatchtowerMaxFee :: real
  WatchtowerMaxPriorityFee :: real
  PrintAndCheckGasInfo :: "gasInfo \<Rightarrow> int \<Rightarrow> bool"
  PrintAndWaitForTransaction :: "bytes \<Rightarrow> error option"

text \<open>The task: the fields of the Go struct that hold collaborators.\<close>

record submitRewardsTree =
  cfg :: rocketPoolConfig
  w :: wallet
  rp :: rocketPool
  ec :: executionClient
  bc :: beaconClient
  ext :: externals

subsection \<open>State and trace\<close>

datatype logmsg =
    LogChecking
  | LogAlreadyRunning
  | LogTreeExists uint64 path
  | LogResubmitting uint64 path
  | LogUploadedTree string
  | LogSubmitted uint64
  | LogWarningIntervals uint64
  | LogStarting uint64 uint64 uint64 time time
  | LogUsingArchive string
  | LogInvalidNetwork address uint64
  | LogUploadingPerformance
  | LogUploadedPerformance string
  | LogSavedPerformance
  | LogGenerationComplete
  | LogUploadingTree
  | LogGenerated uint64
  | LogSlotMissing uint64

datatype event =
    Log logmsg
  | ErrLog error
  | ErrLogGenerationFailed
  | CalledHeaderByNumber "int option"
  | CalledGetELBlockHeaderForTime time
  | CalledGenerateTree generateArgs
  | CalledWriteFile path bytes bool
  | CalledCreate path bool
  | CalledPut bytes "string option"
  | CalledSubmitRewardSnapshot rewardSubmission transactOpts bool

text \<open>
  The mutable part: the \<^verbatim>\<open>isRunning\<close> field of the struct, the files on disk, and the
  trace of what has been done so far.
\<close>

record world =
  isRunning :: bool
  files :: "path \<rightharpoonup> bytes"
  trace :: "event list"

definition emit :: "event \<Rightarrow> world \<Rightarrow> world" where
  "emit e s = s\<lparr>trace := trace s @ [e]\<rparr>"

definition say :: "logmsg \<Rightarrow> world \<Rightarrow> world" where
  "say m s = emit (Log m) s"


subsection \<open>handleError\<close>

definition handleError :: "error \<Rightarrow> world \<Rightarrow> world" where
  "handleError err s = (emit ErrLogGenerationFailed (emit (ErrLog err) s))\<lparr>isRunning := False\<rparr>"

subsection \<open>uploadFileToWeb3Storage\<close>

text \<open>
  The events record each call with its outcome: \<open>CalledCreate p ok\<close>,
  \<open>CalledPut data (Some cid)\<close> for an upload that succeeded and \<open>CalledPut data None\<close>
  for one that failed. \<^verbatim>\<open>os.Create\<close> truncates the file; a failed write leaves what the
  collaborator says.
\<close>

definition uploadFileToWeb3Storage ::
  "submitRewardsTree \<Rightarrow> bytes \<Rightarrow> path \<Rightarrow> world \<Rightarrow> (error + string) \<times> world" where
  "uploadFileToWeb3Storage t wrapperBytes compressedPath s =
     (let apiToken = Web3StorageApiToken (cfg t) in
      if apiToken = [] then (Inl MissingApiToken, s)
      else case NewClient (ext t) apiToken of
        Some err \<Rightarrow> (Inl (Wrapped CtxNewStorageClient err), s)
      | None \<Rightarrow>
          let compressedBytes = EncodeAll (ext t) wrapperBytes in
          case CreateFault (ext t) compressedPath of
            Some err \<Rightarrow> (Inl (Wrapped CtxCreateCompressed err), emit (CalledCreate compressedPath False) s)
          | None \<Rightarrow>
              let s1 = emit (CalledCreate compressedPath True)
                         (s\<lparr>files := (files s)(compressedPath \<mapsto> [])\<rparr>) in
              case FileWriteFault (ext t) compressedPath compressedBytes of
                Some (err, written) \<Rightarrow>
                  (Inl (Wrapped CtxWriteCompressed err),
                   s1\<lparr>files := (files s1)(compressedPath \<mapsto> written)\<rparr>)
              | None \<Rightarrow>
                  let s2 = s1\<lparr>files := (files s1)(compressedPath \<mapsto> compressedBytes)\<rparr> in
                  case Put (ext t) compressedBytes of
                    Inl err \<Rightarrow> (Inl (Wrapped CtxPut err), emit (CalledPut compressedBytes None) s2)
                  | Inr cid \<Rightarrow> (Inr cid, emit (CalledPut compressedBytes (Some cid)) s2))"

subsection \<open>submitRewardsSnapshot\<close>

definition submitRewardsSnapshot ::
  "submitRewardsTree \<Rightarrow> int \<Rightarrow> uint64 \<Rightarrow> uint64 \<Rightarrow> rewardsFile \<Rightarrow> string \<Rightarrow> int \<Rightarrow> world
     \<Rightarrow> error option \<times> world" where
  "submitRewardsSnapshot t index consensusBlock executionBlock rewardsFile cid intervalsPassed s =
     (case DecodeString (ext t) (RemovePrefix (ext t) (MerkleRoot rewardsFile)) of
        Inl err \<Rightarrow> (Some (Wrapped CtxDecodeRoot err), s)
      | Inr treeRootBytes \<Rightarrow>
          let treeRoot = BytesToHash (ext t) treeRootBytes in
          case GetNodeAccountTransactor (w t) of
            Inl err \<Rightarrow> (Some err, s)
          | Inr opts \<Rightarrow>
              let submission = makeSubmission index consensusBlock executionBlock rewardsFile cid
                                 intervalsPassed treeRoot in
              case EstimateSubmitRewardSnapshotGas (rp t) submission opts of
                Inl err \<Rightarrow> (Some (Wrapped CtxEstimateGas err), s)
              | Inr gasInfo \<Rightarrow>
                  let maxFee = GweiToWei (ext t) (WatchtowerMaxFee (ext t)) in
                  if \<not> PrintAndCheckGasInfo (ext t) gasInfo maxFee then (None, s)
                  else
                    let opts' = opts\<lparr> GasFeeCap := maxFee,
                                      GasTipCap := GweiToWei (ext t) (WatchtowerMaxPriorityFee (ext t)),
                                      GasLimit := SafeGasLimit gasInfo \<rparr> in
                    case SubmitRewardSnapshot (rp t) submission opts' of
                      Inl err \<Rightarrow> (Some err, emit (CalledSubmitRewardSnapshot submission opts' False) s)
                    | Inr hash \<Rightarrow>
                        let s1 = emit (CalledSubmitRewardSnapshot submission opts' True) s in
                        case PrintAndWaitForTransaction (ext t) hash of
                          Some err \<Rightarrow> (Some err, s1)
                        | None \<Rightarrow> (None, s1))"

subsection \<open>hasSubmittedTree\<close>

text \<open>\<^verbatim>\<open>index.FillBytes\<close> writes the absolute value big-endian and panics when it does not fit.\<close>

primrec bigEndian :: "nat \<Rightarrow> nat \<Rightarrow> bytes" where
  "bigEndian 0 x = []"
| "bigEndian (Suc n) x = bigEndian n (x div 256) @ [x mod 256]"

definition hasSubmittedTree :: "submitRewardsTree \<Rightarrow> address \<Rightarrow> int \<Rightarrow> error + bool" where
  "hasSubmittedTree t nodeAddress index =
     (if 256 ^ 32 \<le> \<bar>index\<bar> then Inl PanicFillBytes
      else GetBool (rp t)
             (Keccak256Hash (ext t)
                (map of_char ''rewards.snapshot.submitted.node'' @ nodeAddress
                   @ bigEndian 32 (nat \<bar>index\<bar>))))"

subsection \<open>getSnapshotConsensusBlock\<close>





subsection \<open>The background generation task\<close>

text \<open>The variables of \<^verbatim>\<open>run\<close> that the function literal after \<^verbatim>\<open>go\<close> captures.\<close>

record captured =
  nodeTrusted :: bool
  startTime :: time
  endTime :: time
  intervalsPassed :: duration
  currentIndex :: uint64
  currentIndexBig :: int
  snapshotBeaconBlock :: uint64
  snapshotElBlockHeader :: header
  elBlockIndex :: uint64
  treePath :: path
  compressedPath :: path
  minipoolPerformancePath :: path
  compressedMinipoolPerformancePath :: path

text \<open>
  \<^verbatim>\<open>ioutil.WriteFile\<close>: on success the file holds the data; on failure the collaborator
  says what is left on disk.
\<close>

definition writeFile :: "submitRewardsTree \<Rightarrow> path \<Rightarrow> bytes \<Rightarrow> world \<Rightarrow> error option \<times> world" where
  "writeFile t p content s =
     (case WriteFileFault (ext t) p content of
        None \<Rightarrow> (None, emit (CalledWriteFile p content True) (s\<lparr>files := (files s)(p \<mapsto> content)\<rparr>))
      | Some (err, Untouched) \<Rightarrow> (Some err, emit (CalledWriteFile p content False) s)
      | Some (err, LeftWith partial) \<Rightarrow>
          (Some err, emit (CalledWriteFile p content False) (s\<lparr>files := (files s)(p \<mapsto> partial)\<rparr>)))"

text \<open>
  From \<^verbatim>\<open>// Serialize the rewards tree to JSON\<close> to the end of the function literal: save
  the tree, and for a trusted node upload it and submit; then clear the flag.
\<close>

definition saveAndSubmitTree :: "submitRewardsTree \<Rightarrow> captured \<Rightarrow> rewardsFile \<Rightarrow> world \<Rightarrow> world" where
  "saveAndSubmitTree t c rewardsFile s =
     (case MarshalRewardsFile (ext t) rewardsFile of
        Inl err \<Rightarrow> handleError (Wrapped CtxSerializeTree err) s
      | Inr wrapperBytes \<Rightarrow>
          let s1 = say LogGenerationComplete s in
          case writeFile t (treePath c) wrapperBytes s1 of
            (Some err, s2) \<Rightarrow> handleError (Wrapped CtxSaveTree err) s2
          | (None, s2) \<Rightarrow>
              if nodeTrusted c then
                let s3 = say LogUploadingTree s2 in
                case uploadFileToWeb3Storage t wrapperBytes (compressedPath c) s3 of
                  (Inl err, s4) \<Rightarrow> handleError (Wrapped CtxUploadTree err) s4
                | (Inr cid, s4) \<Rightarrow>
                    let s5 = say (LogUploadedTree cid) s4 in
                    case submitRewardsSnapshot t (currentIndexBig c) (snapshotBeaconBlock c)
                           (elBlockIndex c) rewardsFile cid (intervalsPassed c) s5 of
                      (Some err, s6) \<Rightarrow> handleError (Wrapped CtxSubmitSnapshot err) s6
                    | (None, s6) \<Rightarrow> (say (LogSubmitted (currentIndex c)) s6)\<lparr>isRunning := False\<rparr>
              else (say (LogGenerated (currentIndex c)) s2)\<lparr>isRunning := False\<rparr>)"

text \<open>The loop over \<^verbatim>\<open>rewardsFile.InvalidNetworkNodes\<close>: one warning per node.\<close>

fun logInvalidNetworkNodes :: "(address \<times> uint64) list \<Rightarrow> world \<Rightarrow> world" where
  "logInvalidNetworkNodes [] s = s"
| "logInvalidNetworkNodes ((a, n) # rest) s =
     logInvalidNetworkNodes rest (say (LogInvalidNetwork a n) s)"

text \<open>
  From \<^verbatim>\<open>// Generate the rewards file\<close> to the assignment of the performance file's CID:
  build the tree, save the minipool performance file, and for a trusted node upload it.
\<close>

definition generateAndPublish :: "submitRewardsTree \<Rightarrow> captured \<Rightarrow> bool \<Rightarrow> world \<Rightarrow> world" where
  "generateAndPublish t c archive s =
     (let args = \<lparr> genArchive = archive, genIndex = currentIndex c, genStartTime = startTime c,
                   genEndTime = endTime c, genConsensusBlock = snapshotBeaconBlock c,
                   genElHeader = snapshotElBlockHeader c,
                   genIntervalsPassed = uint64_of_int64 (intervalsPassed c) \<rparr>;
          s1 = emit (CalledGenerateTree args) s
      in case GenerateTree (ext t) args of
        Inl err \<Rightarrow> handleError (Wrapped CtxGenerateTree err) s1
      | Inr rewardsFile \<Rightarrow>
          let s2 = logInvalidNetworkNodes (InvalidNetworkNodes rewardsFile) s1 in
          case MarshalPerformance (ext t) (MinipoolPerformanceFile rewardsFile) of
            Inl err \<Rightarrow> handleError (Wrapped CtxSerializePerformance err) s2
          | Inr minipoolPerformanceBytes \<Rightarrow>
              case writeFile t (minipoolPerformancePath c) minipoolPerformanceBytes s2 of
                (Some err, s3) \<Rightarrow> handleError (Wrapped CtxSavePerformance err) s3
              | (None, s3) \<Rightarrow>
                  if nodeTrusted c then
                    let s4 = say LogUploadingPerformance s3 in
                    case uploadFileToWeb3Storage t minipoolPerformanceBytes
                           (compressedMinipoolPerformancePath c) s4 of
                      (Inl err, s5) \<Rightarrow> handleError (Wrapped CtxUploadPerformance err) s5
                    | (Inr minipoolPerformanceCid, s5) \<Rightarrow>
                        saveAndSubmitTree t c
                          (rewardsFile\<lparr>MinipoolPerformanceFileCID := minipoolPerformanceCid\<rparr>)
                          (say (LogUploadedPerformance minipoolPerformanceCid) s5)
                  else
                    saveAndSubmitTree t c (rewardsFile\<lparr>MinipoolPerformanceFileCID := ''---''\<rparr>)
                      (say LogSavedPerformance s3))"

text \<open>
  The function literal from its first statement: set the flag, log, and pick the archive
  client when one is configured.
\<close>

definition generationTask :: "submitRewardsTree \<Rightarrow> captured \<Rightarrow> world \<Rightarrow> world" where
  "generationTask t c s =
     (let s1 = s\<lparr>isRunning := True\<rparr>;
          s2 = (if 1 < uint64_of_int64 (intervalsPassed c)
                then say (LogWarningIntervals (uint64_of_int64 (intervalsPassed c))) s1 else s1);
          s3 = say (LogStarting (currentIndex c) (snapshotBeaconBlock c) (elBlockIndex c)
                      (startTime c) (endTime c)) s2;
          archiveEcUrl = ArchiveECUrl (cfg t)
      in if archiveEcUrl \<noteq> [] then
           let s4 = say (LogUsingArchive archiveEcUrl) s3 in
           case Dial (ext t) archiveEcUrl of
             Some err \<Rightarrow> handleError (Wrapped CtxArchiveConnect err) s4
           | None \<Rightarrow>
               (case NewRocketPool (ext t) of
                  Some err \<Rightarrow> handleError (Wrapped CtxArchiveClient err) s4
                | None \<Rightarrow> generateAndPublish t c True s4)
         else generateAndPublish t c False s3)"

subsection \<open>run\<close>

text \<open>
  What an invocation hands back: the \<^verbatim>\<open>error\<close> it returns (\<open>None\<close> for \<^verbatim>\<open>nil\<close>; a
  panic is the error \<open>PanicDivideByZero\<close> or \<open>PanicFillBytes\<close>), and the captured
  variables of the task it started with \<^verbatim>\<open>go\<close>, if it started one.
\<close>

type_synonym outcome = "error option \<times> captured option"

text \<open>
  The last part of \<^verbatim>\<open>run\<close>, from \<^verbatim>\<open>path := ...\<close>: when the tree file is there (the
  \<^verbatim>\<open>os.Stat\<close> error is not "does not exist"), stop or resubmit the stored file; otherwise
  start the background task.
\<close>

definition run_artifact :: "submitRewardsTree \<Rightarrow> address \<Rightarrow> captured \<Rightarrow> world \<Rightarrow> outcome \<times> world" where
  "run_artifact t nodeAddress c s =
     (case files s (treePath c) of
        Some stored \<Rightarrow>
          if \<not> nodeTrusted c
          then ((None, None), say (LogTreeExists (currentIndex c) (treePath c)) s)
          else
            (case hasSubmittedTree t nodeAddress (currentIndexBig c) of
               Inl err \<Rightarrow>
                 ((Some (if err = PanicFillBytes then err else Wrapped CtxSubmissionProcessed err),
                   None), s)
             | Inr hasSubmitted \<Rightarrow>
                 if hasSubmitted then ((None, None), s)
                 else
                   let s1 = say (LogResubmitting (currentIndex c) (treePath c)) s in
                   case ReadFileFault (ext t) (treePath c) of
                     Some err \<Rightarrow> ((Some (Wrapped CtxReadTreeFile err), None), s1)
                   | None \<Rightarrow>
                       let wrapperBytes = stored in
                       case Unmarshal (ext t) wrapperBytes of
                         Inl err \<Rightarrow> ((Some (Wrapped CtxDeserializeTreeFile err), None), s1)
                       | Inr proofWrapper \<Rightarrow>
                           (case uploadFileToWeb3Storage t wrapperBytes (compressedPath c) s1 of
                              (Inl err, s2) \<Rightarrow> ((Some (Wrapped CtxUploadTree err), None), s2)
                            | (Inr cid, s2) \<Rightarrow>
                                let s3 = say (LogUploadedTree cid) s2 in
                                case submitRewardsSnapshot t (currentIndexBig c)
                                       (snapshotBeaconBlock c) (elBlockIndex c) proofWrapper cid
                                       (intervalsPassed c) s3 of
                                  (Some err, s4) \<Rightarrow> ((Some (Wrapped CtxSubmitSnapshot err), None), s4)
                                | (None, s4) \<Rightarrow>
                                    ((None, None), say (LogSubmitted (currentIndex c)) s4)))
      | None \<Rightarrow> ((None, Some c), s))"





subsection \<open>Reading a trace\<close>

text \<open>The events that a step from \<open>s\<close> to \<open>s'\<close> added.\<close>

definition new_events :: "world \<Rightarrow> world \<Rightarrow> event list" where
  "new_events s s' = drop (length (trace s)) (trace s')"

fun isWrite :: "path \<Rightarrow> event \<Rightarrow> bool" where
  "isWrite p (CalledWriteFile q b ok) = (q = p)"
| "isWrite p _ = False"

fun isWriteOk :: "path \<Rightarrow> event \<Rightarrow> bool" where
  "isWriteOk p (CalledWriteFile q b ok) = (q = p \<and> ok)"
| "isWriteOk p _ = False"

fun isCreate :: "path \<Rightarrow> event \<Rightarrow> bool" where
  "isCreate p (CalledCreate q ok) = (q = p)"
| "isCreate p _ = False"

fun isPut :: "event \<Rightarrow> bool" where
  "isPut (CalledPut b r) = True"
| "isPut _ = False"


fun isPutOk :: "event \<Rightarrow> bool" where
  "isPutOk (CalledPut b (Some cid)) = True"
| "isPutOk _ = False"

fun isSubmit :: "event \<Rightarrow> bool" where
  "isSubmit (CalledSubmitRewardSnapshot sub opts ok) = True"
| "isSubmit _ = False"

fun isGenerate :: "event \<Rightarrow> bool" where
  "isGenerate (CalledGenerateTree a) = True"
| "isGenerate _ = False"


fun isHeaderLookup :: "event \<Rightarrow> bool" where
  "isHeaderLookup (CalledHeaderByNumber (Some n)) = True"
| "isHeaderLookup _ = False"

fun isTimeSearch :: "event \<Rightarrow> bool" where
  "isTimeSearch (CalledGetELBlockHeaderForTime tm) = True"
| "isTimeSearch _ = False"

text \<open>Every event that satisfies \<open>Q\<close> has an event that satisfies \<open>P\<close> before it.\<close>

fun precededBy :: "(event \<Rightarrow> bool) \<Rightarrow> (event \<Rightarrow> bool) \<Rightarrow> event list \<Rightarrow> bool" where
  "precededBy P Q [] = True"
| "precededBy P Q (e # es) = (P e \<or> (\<not> Q e \<and> precededBy P Q es))"

subsection \<open>Calls that do not read the world\<close>

text \<open>
  The upload, the submission and the two halves of the background task decide nothing on
  the world they start in: they only add files and events to it. Their result, their
  events and their files are therefore those of a start in the empty world.
\<close>

definition emptyWorld :: world where
  "emptyWorld = \<lparr> isRunning = False, files = Map.empty, trace = [] \<rparr>"

definition uploadResult :: "submitRewardsTree \<Rightarrow> bytes \<Rightarrow> path \<Rightarrow> error + string" where
  "uploadResult t b p = fst (uploadFileToWeb3Storage t b p emptyWorld)"

definition uploadEvents :: "submitRewardsTree \<Rightarrow> bytes \<Rightarrow> path \<Rightarrow> event list" where
  "uploadEvents t b p = trace (snd (uploadFileToWeb3Storage t b p emptyWorld))"

definition uploadFiles :: "submitRewardsTree \<Rightarrow> bytes \<Rightarrow> path \<Rightarrow> (path \<rightharpoonup> bytes)" where
  "uploadFiles t b p = files (snd (uploadFileToWeb3Storage t b p emptyWorld))"

definition submitResult ::
  "submitRewardsTree \<Rightarrow> int \<Rightarrow> uint64 \<Rightarrow> uint64 \<Rightarrow> rewardsFile \<Rightarrow> string \<Rightarrow> int \<Rightarrow> error option" where
  "submitResult t index cb eb rf cid passed =
     fst (submitRewardsSnapshot t index cb eb rf cid passed emptyWorld)"

definition submitEvents ::
  "submitRewardsTree \<Rightarrow> int \<Rightarrow> uint64 \<Rightarrow> uint64 \<Rightarrow> rewardsFile \<Rightarrow> string \<Rightarrow> int \<Rightarrow> event list" where
  "submitEvents t index cb eb rf cid passed =
     trace (snd (submitRewardsSnapshot t index cb eb rf cid passed emptyWorld))"

definition saveEvents :: "submitRewardsTree \<Rightarrow> captured \<Rightarrow> rewardsFile \<Rightarrow> event list" where
  "saveEvents t c rf = trace (saveAndSubmitTree t c rf emptyWorld)"

definition saveFiles :: "submitRewardsTree \<Rightarrow> captured \<Rightarrow> rewardsFile \<Rightarrow> (path \<rightharpoonup> bytes)" where
  "saveFiles t c rf = files (saveAndSubmitTree t c rf emptyWorld)"

definition publishEvents :: "submitRewardsTree \<Rightarrow> captured \<Rightarrow> bool \<Rightarrow> event list" where
  "publishEvents t c archive = trace (generateAndPublish t c archive emptyWorld)"

definition publishFiles :: "submitRewardsTree \<Rightarrow> captured \<Rightarrow> bool \<Rightarrow> (path \<rightharpoonup> bytes)" where
  "publishFiles t c archive = files (generateAndPublish t c archive emptyWorld)"

definition taskEvents :: "submitRewardsTree \<Rightarrow> captured \<Rightarrow> event list" where
  "taskEvents t c = trace (generationTask t c emptyWorld)"

definition taskFiles :: "submitRewardsTree \<Rightarrow> captured \<Rightarrow> (path \<rightharpoonup> bytes)" where
  "taskFiles t c = files (generationTask t c emptyWorld)"

section \<open>Concrete inputs\<close>

text \<open>A rewards file with data for the networks 0, 1, 2 and 4, and nothing at 3.\<close>

definition rf3 :: rewardsFile where
  "rf3 = \<lparr> MerkleRoot = ''0xab'',
     NetworkRewards = fmap_of_list
       [(0, \<lparr>CollateralRpl = 10, OracleDaoRpl = 11, SmoothingPoolEth = 12\<rparr>),
        (1, \<lparr>CollateralRpl = 20, OracleDaoRpl = 21, SmoothingPoolEth = 22\<rparr>),
        (2, \<lparr>CollateralRpl = 30, OracleDaoRpl = 31, SmoothingPoolEth = 32\<rparr>),
        (4, \<lparr>CollateralRpl = 50, OracleDaoRpl = 51, SmoothingPoolEth = 52\<rparr>)],
     TotalProtocolDaoRpl = 7, InvalidNetworkNodes = [], MinipoolPerformanceFile = [],
     MinipoolPerformanceFileCID = '''', Others = [] \<rparr>"


text \<open>
  A trusted node for which every collaborator succeeds. The interval started at second
  1000 and lasts 100 seconds; the latest block is of second 1250. Slots last 12 seconds,
  an epoch has 32 slots, epoch 10 is finalized. The slots 127 and 126 have no block; the
  slots up to 125 have one, with execution block 900.
\<close>

definition cfg0 :: rocketPoolConfig where
  "cfg0 = \<lparr> RewardsTreeMode = RewardsMode_Generate, ArchiveECUrl = [],
            Web3StorageApiToken = ''token'',
            GetRewardsTreePath = (\<lambda>i. ''tree''),
            GetMinipoolPerformancePath = (\<lambda>i. ''perf''),
            RewardsTreeIpfsExtension = ''.zst'' \<rparr>"

definition wallet0 :: wallet where
  "wallet0 = \<lparr> GetNodeAccount = Inr [1],
               GetNodeAccountTransactor = Inr \<lparr>GasFeeCap = 0, GasTipCap = 0, GasLimit = 0\<rparr> \<rparr>"

definition rp0 :: rocketPool where
  "rp0 = \<lparr> GetMemberExists = (\<lambda>a. Inr True),
           GetClaimIntervalTimeStart = Inr 1000000000000,
           GetClaimIntervalTime = Inr 100000000000,
           GetRewardIndex = Inr 5,
           GetBool = (\<lambda>k. Inr False),
           EstimateSubmitRewardSnapshotGas = (\<lambda>sub opts. Inr \<lparr>EstGasLimit = 100, SafeGasLimit = 150\<rparr>),
           SubmitRewardSnapshot = (\<lambda>sub opts. Inr [7]) \<rparr>"

definition ec0 :: executionClient where
  "ec0 = \<lparr> HeaderByNumber = (\<lambda>n. case n of
             None \<Rightarrow> Inr \<lparr>Number = 1000, HeaderTime = 1250\<rparr>
           | Some k \<Rightarrow> Inr \<lparr>Number = k, HeaderTime = 1190\<rparr>) \<rparr>"

definition eth2Config0 :: eth2Config where
  "eth2Config0 = \<lparr>GenesisTime = 0, SecondsPerSlot = 12, SlotsPerEpoch = 32, SecondsPerEpoch = 384\<rparr>"

definition bc0 :: beaconClient where
  "bc0 = \<lparr> GetEth2Config = Inr eth2Config0,
           GetBeaconHead = Inr \<lparr>FinalizedEpoch = 10\<rparr>,
           GetBeaconBlock = (\<lambda>slot. Inr (\<lparr>ExecutionBlockNumber = 900\<rparr>, slot \<le> 125)) \<rparr>"

definition ext0 :: externals where
  "ext0 = \<lparr> WaitEthClientSynced = None,
            WaitBeaconClientSynced = None,
            GetELBlockHeaderForTime = (\<lambda>tm. Inr \<lparr>Number = 800, HeaderTime = 1190\<rparr>),
            ReadFileFault = (\<lambda>p. None),
            Unmarshal = (\<lambda>b. Inr rf3),
            MarshalPerformance = (\<lambda>b. Inr [9]),
            MarshalRewardsFile = (\<lambda>f. Inr [1, 2, 3]),
            WriteFileFault = (\<lambda>p b. None),
            Dial = (\<lambda>u. None),
            NewRocketPool = None,
            GenerateTree = (\<lambda>a. Inr rf3),
            RemovePrefix = drop 2,
            DecodeString = (\<lambda>x. Inr [171]),
            BytesToHash = (\<lambda>b. b),
            Keccak256Hash = (\<lambda>b. b),
            NewClient = (\<lambda>tok. None),
            EncodeAll = (\<lambda>b. b),
            CreateFault = (\<lambda>p. None),
            FileWriteFault = (\<lambda>p b. None),
            Put = (\<lambda>b. Inr ''cid''),
            GweiToWei = (\<lambda>g. \<lfloor>g * 1000000000\<rfloor>),
            WatchtowerMaxFee = 200,
            WatchtowerMaxPriorityFee = 3,
            PrintAndCheckGasInfo = (\<lambda>g m. True),
            PrintAndWaitForTransaction = (\<lambda>h. None) \<rparr>"

definition t0 :: submitRewardsTree where
  "t0 = \<lparr> cfg = cfg0, w = wallet0, rp = rp0, ec = ec0, bc = bc0, ext = ext0 \<rparr>"

text \<open>The same node when the gas check declines.\<close>

definition t_declined :: submitRewardsTree where
  "t_declined = t0\<lparr>ext := ext0\<lparr>PrintAndCheckGasInfo := (\<lambda>g m. False)\<rparr>\<rparr>"

text \<open>A world with no file, and one where the tree file of the interval is on disk.\<close>

definition world0 :: world where
  "world0 = \<lparr> isRunning = False, files = Map.empty, trace = [] \<rparr>"

definition world_stored :: world where
  "world_stored = \<lparr> isRunning = False, files = [''tree'' \<mapsto> [1, 2, 3]], trace = [] \<rparr>"

text \<open>What the task of such a node captures for interval 5.\<close>

definition captured0 :: captured where
  "captured0 = \<lparr> nodeTrusted = True, startTime = 1000000000000, endTime = 1200000000000,
       intervalsPassed = 2, currentIndex = 5, currentIndexBig = 5, snapshotBeaconBlock = 125,
       snapshotElBlockHeader = \<lparr>Number = 900, HeaderTime = 1190\<rparr>, elBlockIndex = 900,
       treePath = ''tree'', compressedPath = ''tree.zst'', minipoolPerformancePath = ''perf'',
       compressedMinipoolPerformancePath = ''perf.zst'' \<rparr>"


section \<open>Properties\<close>

subsection \<open>The per-network arrays\<close>

lemma networkArrays_run:
  assumes "\<And>k. n \<le> k \<Longrightarrow> k < n + d \<Longrightarrow> k |\<in>| fmdom m" and "n + d |\<notin>| fmdom m"
  shows "networkArrays m n (c, od, s) =
           (c @ map (\<lambda>k. CollateralRpl (the (fmlookup m k))) [n..<n + d],
            od @ map (\<lambda>k. OracleDaoRpl (the (fmlookup m k))) [n..<n + d],
            s @ map (\<lambda>k. SmoothingPoolEth (the (fmlookup m k))) [n..<n + d])"
  using assms
proof (induction d arbitrary: n c od s)
  case 0
  then have "fmlookup m n = None" by (simp add: fmdom_notD)
  then show ?case by (simp add: networkArrays.simps)
next
  case (Suc d)
  have "n |\<in>| fmdom m" using Suc.prems(1) [of n] by simp
  then obtain v where v: "fmlookup m n = Some v" by (auto simp: fmlookup_dom_iff)
  have IH: "networkArrays m (Suc n) (c @ [CollateralRpl v], od @ [OracleDaoRpl v], s @ [SmoothingPoolEth v]) =
     ((c @ [CollateralRpl v]) @ map (\<lambda>k. CollateralRpl (the (fmlookup m k))) [Suc n..<Suc n + d],
      (od @ [OracleDaoRpl v]) @ map (\<lambda>k. OracleDaoRpl (the (fmlookup m k))) [Suc n..<Suc n + d],
      (s @ [SmoothingPoolEth v]) @ map (\<lambda>k. SmoothingPoolEth (the (fmlookup m k))) [Suc n..<Suc n + d])"
    using Suc.prems by (intro Suc.IH) auto
  have up: "[n..<n + Suc d] = n # [Suc n..<Suc n + d]"
    by (simp add: upt_conv_Cons)
  have unfold: "networkArrays m n (c, od, s) =
      networkArrays m (Suc n) (c @ [CollateralRpl v], od @ [OracleDaoRpl v], s @ [SmoothingPoolEth v])"
    by (subst networkArrays.simps) (simp add: v)
  show ?case
    unfolding unfold IH up using v by simp
qed


text \<open>
  Claim C7. When the map of a rewards file is defined on every network id below \<open>n\<close>
  and not on \<open>n\<close>, the three arrays of the submission (collateral RPL, oracle DAO RPL,
  smoothing pool ETH) are the amounts of the networks \<open>0, ..., n - 1\<close> in this order, so
  each has length \<open>n\<close>, the first gap. With data for 0, 1, 2 (and 4) and nothing at 3 the
  arrays have length 3.
\<close>

theorem submission_arrays_dense:
  assumes "\<forall>k<n. k |\<in>| fmdom (NetworkRewards rf)" and "n |\<notin>| fmdom (NetworkRewards rf)"
  shows "NodeRPL (makeSubmission index cb eb rf cid ip tr) =
           map (\<lambda>k. CollateralRpl (the (fmlookup (NetworkRewards rf) k))) [0..<n]
       \<and> TrustedNodeRPL (makeSubmission index cb eb rf cid ip tr) =
           map (\<lambda>k. OracleDaoRpl (the (fmlookup (NetworkRewards rf) k))) [0..<n]
       \<and> NodeETH (makeSubmission index cb eb rf cid ip tr) =
           map (\<lambda>k. SmoothingPoolEth (the (fmlookup (NetworkRewards rf) k))) [0..<n]
       \<and> length (NodeRPL (makeSubmission index cb eb rf cid ip tr)) = n
       \<and> length (TrustedNodeRPL (makeSubmission index cb eb rf cid ip tr)) = n
       \<and> length (NodeETH (makeSubmission index cb eb rf cid ip tr)) = n"
proof -
  have "networkArrays (NetworkRewards rf) 0 ([], [], []) =
     ([] @ map (\<lambda>k. CollateralRpl (the (fmlookup (NetworkRewards rf) k))) [0..<0 + n],
      [] @ map (\<lambda>k. OracleDaoRpl (the (fmlookup (NetworkRewards rf) k))) [0..<0 + n],
      [] @ map (\<lambda>k. SmoothingPoolEth (the (fmlookup (NetworkRewards rf) k))) [0..<0 + n])"
    using assms by (intro networkArrays_run) auto
  then show ?thesis by (simp add: makeSubmission_def)
qed

theorem submission_arrays_dense_witness:
  "0 |\<in>| fmdom (NetworkRewards rf3) \<and> 1 |\<in>| fmdom (NetworkRewards rf3)
   \<and> 2 |\<in>| fmdom (NetworkRewards rf3) \<and> 3 |\<notin>| fmdom (NetworkRewards rf3)
   \<and> NodeRPL (makeSubmission 5 100 90 rf3 ''cid'' 1 [171]) = [10, 20, 30]
   \<and> TrustedNodeRPL (makeSubmission 5 100 90 rf3 ''cid'' 1 [171]) = [11, 21, 31]
   \<and> NodeETH (makeSubmission 5 100 90 rf3 ''cid'' 1 [171]) = [12, 22, 32]
   \<and> length (NodeRPL (makeSubmission 5 100 90 rf3 ''cid'' 1 [171])) = 3"
proof -
  have dom: "\<forall>k<3. k |\<in>| fmdom (NetworkRewards rf3)"
    by (simp add: rf3_def All_less_Suc numeral_3_eq_3)
  have gap: "3 |\<notin>| fmdom (NetworkRewards rf3)"
    by (simp add: rf3_def)
  have up: "[0..<3] = [0, 1, 2]" by (simp add: upt_rec)
  show ?thesis
    using gap submission_arrays_dense [OF dom gap, of 5 100 90 "''cid''" 1 "[171]"]
    by (simp add: up rf3_def fmlookup_of_list)
qed

subsection \<open>Events, logs and the error handler\<close>

lemma emit_simps [simp]:
  "isRunning (emit e s) = isRunning s"
  "files (emit e s) = files s"
  "trace (emit e s) = trace s @ [e]"
  by (simp_all add: emit_def)

lemma say_simps [simp]:
  "isRunning (say m s) = isRunning s"
  "files (say m s) = files s"
  "trace (say m s) = trace s @ [Log m]"
  by (simp_all add: say_def)

lemma handleError_simps [simp]:
  "isRunning (handleError err s) = False"
  "files (handleError err s) = files s"
  "trace (handleError err s) = trace s @ [ErrLog err, ErrLogGenerationFailed]"
  by (simp_all add: handleError_def)

subsection \<open>The flag after the background task\<close>

lemma saveAndSubmitTree_clears: "isRunning (saveAndSubmitTree t c rewardsFile s) = False"
  by (simp add: saveAndSubmitTree_def Let_def split: sum.splits option.splits prod.splits)

lemma generateAndPublish_clears: "isRunning (generateAndPublish t c archive s) = False"
  by (simp add: generateAndPublish_def saveAndSubmitTree_clears Let_def
           split: sum.splits option.splits prod.splits)

lemma saveAndSubmitTree_last:
  "last (trace (saveAndSubmitTree t c rewardsFile s)) = ErrLogGenerationFailed
   \<or> last (trace (saveAndSubmitTree t c rewardsFile s)) = Log (LogSubmitted (currentIndex c))
   \<or> last (trace (saveAndSubmitTree t c rewardsFile s)) = Log (LogGenerated (currentIndex c))"
  by (simp add: saveAndSubmitTree_def Let_def split: sum.splits option.splits prod.splits)

lemma generateAndPublish_last:
  "last (trace (generateAndPublish t c archive s)) = ErrLogGenerationFailed
   \<or> last (trace (generateAndPublish t c archive s)) = Log (LogSubmitted (currentIndex c))
   \<or> last (trace (generateAndPublish t c archive s)) = Log (LogGenerated (currentIndex c))"
  using saveAndSubmitTree_last
  by (simp add: generateAndPublish_def Let_def split: sum.splits option.splits prod.splits)

text \<open>
  Claim C9. Whatever the collaborators answer, the background task ends with
  \<^verbatim>\<open>isRunning\<close> false. Its last event is either the success message or the second
  message of \<^verbatim>\<open>handleError\<close>, which only \<^verbatim>\<open>handleError\<close> emits: every path that does not
  end in success goes through the handler.
\<close>

theorem generationTask_clears_isRunning:
  "isRunning (generationTask t c s) = False
   \<and> (last (trace (generationTask t c s)) = ErrLogGenerationFailed
      \<or> last (trace (generationTask t c s)) = Log (LogSubmitted (currentIndex c))
      \<or> last (trace (generationTask t c s)) = Log (LogGenerated (currentIndex c)))"
proof
  show "isRunning (generationTask t c s) = False"
    by (simp add: generationTask_def generateAndPublish_clears Let_def split: option.splits)
  show "last (trace (generationTask t c s)) = ErrLogGenerationFailed
      \<or> last (trace (generationTask t c s)) = Log (LogSubmitted (currentIndex c))
      \<or> last (trace (generationTask t c s)) = Log (LogGenerated (currentIndex c))"
    using generateAndPublish_last
    by (simp add: generationTask_def Let_def split: option.splits)
qed

subsection \<open>The gas check\<close>

text \<open>
  Claim C8. When the Merkle root decodes, the transactor and the gas estimate are there,
  and the check of the gas cost against the maximum fee fails, \<^verbatim>\<open>submitRewardsSnapshot\<close>
  returns \<^verbatim>\<open>nil\<close> and leaves the world as it was: no transaction is submitted. The caller
  in the background task takes this for success, and the task ends with the flag cleared.
\<close>

theorem gas_check_declines:
  assumes "DecodeString (ext t) (RemovePrefix (ext t) (MerkleRoot rewardsFile)) = Inr treeRootBytes"
    and "GetNodeAccountTransactor (w t) = Inr opts"
    and "EstimateSubmitRewardSnapshotGas (rp t)
           (makeSubmission index consensusBlock executionBlock rewardsFile cid passed
              (BytesToHash (ext t) treeRootBytes)) opts = Inr gas"
    and "\<not> PrintAndCheckGasInfo (ext t) gas (GweiToWei (ext t) (WatchtowerMaxFee (ext t)))"
  shows "submitRewardsSnapshot t index consensusBlock executionBlock rewardsFile cid passed s
           = (None, s)
       \<and> \<not> list_ex isSubmit (new_events s
             (snd (submitRewardsSnapshot t index consensusBlock executionBlock rewardsFile cid passed s)))
       \<and> isRunning (saveAndSubmitTree t c rewardsFile s') = False"
  using assms
  by (simp add: submitRewardsSnapshot_def Let_def new_events_def saveAndSubmitTree_clears)

theorem gas_check_declines_witness:
  "DecodeString (ext t_declined) (RemovePrefix (ext t_declined) (MerkleRoot rf3)) = Inr [171]
   \<and> GetNodeAccountTransactor (w t_declined) = Inr \<lparr>GasFeeCap = 0, GasTipCap = 0, GasLimit = 0\<rparr>
   \<and> \<not> PrintAndCheckGasInfo (ext t_declined) \<lparr>EstGasLimit = 100, SafeGasLimit = 150\<rparr>
         (GweiToWei (ext t_declined) (WatchtowerMaxFee (ext t_declined)))
   \<and> submitRewardsSnapshot t_declined 5 125 900 rf3 ''cid'' 2 world0 = (None, world0)
   \<and> isRunning (saveAndSubmitTree t_declined captured0 rf3 world0) = False"
  using gas_check_declines [of t_declined rf3 "[171]" "\<lparr>GasFeeCap = 0, GasTipCap = 0, GasLimit = 0\<rparr>"
          5 125 900 "''cid''" 2 "\<lparr>EstGasLimit = 100, SafeGasLimit = 150\<rparr>" world0 captured0 world0]
  by (simp add: t_declined_def t0_def ext0_def wallet0_def rp0_def)

subsection \<open>Calls that do not read the world\<close>

lemma upload_uniform:
  "uploadFileToWeb3Storage t b p s =
     (uploadResult t b p,
      s\<lparr>files := files s ++ uploadFiles t b p, trace := trace s @ uploadEvents t b p\<rparr>)"
  by (simp add: uploadFileToWeb3Storage_def uploadResult_def uploadEvents_def uploadFiles_def
        emptyWorld_def emit_def Let_def split: option.splits sum.splits prod.splits)

lemma submit_uniform:
  "submitRewardsSnapshot t index cb eb rf cid passed s =
     (submitResult t index cb eb rf cid passed,
      s\<lparr>trace := trace s @ submitEvents t index cb eb rf cid passed\<rparr>)"
  by (simp add: submitRewardsSnapshot_def submitResult_def submitEvents_def
        emptyWorld_def emit_def Let_def split: option.splits sum.splits prod.splits)

lemma save_uniform:
  "saveAndSubmitTree t c rf s =
     s\<lparr>isRunning := False, files := files s ++ saveFiles t c rf,
       trace := trace s @ saveEvents t c rf\<rparr>"
  by (simp add: saveAndSubmitTree_def saveEvents_def saveFiles_def upload_uniform submit_uniform
        writeFile_def handleError_def say_def emit_def emptyWorld_def Let_def case_prod_unfold
      split: option.splits sum.splits writeFailure.splits)

lemma logInvalidNetworkNodes_trace:
  "logInvalidNetworkNodes xs s =
     s\<lparr>trace := trace s @ map (\<lambda>(a, n). Log (LogInvalidNetwork a n)) xs\<rparr>"
  by (induction xs s rule: logInvalidNetworkNodes.induct) (auto simp: say_def emit_def)

lemma publish_uniform:
  "generateAndPublish t c archive s =
     s\<lparr>isRunning := False, files := files s ++ publishFiles t c archive,
       trace := trace s @ publishEvents t c archive\<rparr>"
  by (simp add: generateAndPublish_def publishEvents_def publishFiles_def upload_uniform
        save_uniform logInvalidNetworkNodes_trace
        writeFile_def handleError_def say_def emit_def emptyWorld_def Let_def case_prod_unfold
      split: option.splits sum.splits writeFailure.splits)

lemma task_uniform:
  "generationTask t c s =
     s\<lparr>isRunning := False, files := files s ++ taskFiles t c,
       trace := trace s @ taskEvents t c\<rparr>"
  by (simp add: generationTask_def taskEvents_def taskFiles_def publish_uniform
        handleError_def say_def emit_def emptyWorld_def Let_def
      split: option.splits)

subsection \<open>What the upload and the submission emit\<close>

lemma uploadEvents_cases:
  "uploadEvents t b p = []
   \<or> uploadEvents t b p = [CalledCreate p False]
   \<or> uploadEvents t b p = [CalledCreate p True]
   \<or> uploadEvents t b p = [CalledCreate p True, CalledPut (EncodeAll (ext t) b) None]
   \<or> (\<exists>cid. uploadResult t b p = Inr cid
          \<and> uploadEvents t b p = [CalledCreate p True, CalledPut (EncodeAll (ext t) b) (Some cid)])"
  by (simp add: uploadEvents_def uploadResult_def uploadFileToWeb3Storage_def emptyWorld_def
        emit_def Let_def split: option.splits sum.splits prod.splits)

lemma uploadResult_ok:
  "uploadResult t b p = Inr cid \<Longrightarrow>
     uploadEvents t b p = [CalledCreate p True, CalledPut (EncodeAll (ext t) b) (Some cid)]"
  by (simp add: uploadEvents_def uploadResult_def uploadFileToWeb3Storage_def emptyWorld_def
        emit_def Let_def split: option.splits sum.splits prod.splits if_splits)

lemma uploadFiles_other: "q \<noteq> p \<Longrightarrow> uploadFiles t b p q = None"
  by (simp add: uploadFiles_def uploadFileToWeb3Storage_def emptyWorld_def
        emit_def Let_def split: option.splits sum.splits prod.splits)

lemma upload_no_write [simp]: "list_ex (isWrite q) (uploadEvents t b p) = False"
  using uploadEvents_cases [of t b p] by auto

lemma upload_no_generate [simp]: "list_ex isGenerate (uploadEvents t b p) = False"
  using uploadEvents_cases [of t b p] by auto


lemma upload_no_lookup [simp]:
  "filter isHeaderLookup (uploadEvents t b p) = []"
  "filter isTimeSearch (uploadEvents t b p) = []"
  using uploadEvents_cases [of t b p] by auto

lemma upload_no_other_create: "q \<noteq> p \<Longrightarrow> list_ex (isCreate q) (uploadEvents t b p) = False"
  using uploadEvents_cases [of t b p] by auto


lemma upload_ok_put: "uploadResult t b p = Inr cid \<Longrightarrow> list_ex isPutOk (uploadEvents t b p)"
  by (simp add: uploadResult_ok)

lemma submitEvents_cases:
  "submitEvents t index cb eb rf cid passed = []
   \<or> (\<exists>treeRootBytes opts ok.
         DecodeString (ext t) (RemovePrefix (ext t) (MerkleRoot rf)) = Inr treeRootBytes
         \<and> submitEvents t index cb eb rf cid passed =
             [CalledSubmitRewardSnapshot
                (makeSubmission index cb eb rf cid passed (BytesToHash (ext t) treeRootBytes))
                opts ok])"
  by (auto simp add: submitEvents_def submitRewardsSnapshot_def emptyWorld_def
        emit_def Let_def split: option.splits sum.splits prod.splits)

lemma makeSubmission_root [simp]:
  "SubMerkleRoot (makeSubmission index cb eb rf cid passed r) = r"
  by (simp add: makeSubmission_def split: prod.splits)

lemma submit_no_write [simp]: "list_ex (isWrite q) (submitEvents t index cb eb rf cid passed) = False"
  using submitEvents_cases [of t index cb eb rf cid passed] by auto

lemma submit_no_generate [simp]: "list_ex isGenerate (submitEvents t index cb eb rf cid passed) = False"
  using submitEvents_cases [of t index cb eb rf cid passed] by auto


lemma submit_no_create [simp]: "list_ex (isCreate q) (submitEvents t index cb eb rf cid passed) = False"
  using submitEvents_cases [of t index cb eb rf cid passed] by auto

lemma submit_no_lookup [simp]:
  "filter isHeaderLookup (submitEvents t index cb eb rf cid passed) = []"
  "filter isTimeSearch (submitEvents t index cb eb rf cid passed) = []"
  using submitEvents_cases [of t index cb eb rf cid passed] by auto


subsection \<open>Order of events\<close>

lemma precededBy_append:
  "precededBy P Q (xs @ ys) = (precededBy P Q xs \<and> (list_ex P xs \<or> precededBy P Q ys))"
  by (induction xs) auto

lemma precededBy_none: "\<not> list_ex Q xs \<Longrightarrow> precededBy P Q xs"
  by (induction xs) auto

lemma precededBy_ex: "precededBy P Q xs \<Longrightarrow> list_ex Q xs \<Longrightarrow> list_ex P xs"
  by (induction xs) auto

lemma invalid_logs_neutral [simp]:
  "list_ex (isWrite q) (map (\<lambda>(a, n). Log (LogInvalidNetwork a n)) xs) = False"
  "list_ex (isWriteOk q) (map (\<lambda>(a, n). Log (LogInvalidNetwork a n)) xs) = False"
  "list_ex isPutOk (map (\<lambda>(a, n). Log (LogInvalidNetwork a n)) xs) = False"
  by (induction xs; auto split: prod.splits)+

lemma new_events_task [simp]: "new_events s (generationTask t c s) = taskEvents t c"
  by (subst task_uniform) (simp add: new_events_def)

lemma publish_order:
  assumes "treePath c \<noteq> minipoolPerformancePath c"
  shows "precededBy (isWriteOk (minipoolPerformancePath c)) (isWrite (treePath c))
           (publishEvents t c archive)"
  using assms
  by (simp add: publishEvents_def generateAndPublish_def upload_uniform save_uniform
        logInvalidNetworkNodes_trace writeFile_def handleError_def say_def emit_def emptyWorld_def
        Let_def case_prod_unfold precededBy_append precededBy_none list_ex_iff
      split: option.splits sum.splits writeFailure.splits)

lemma task_order:
  assumes "treePath c \<noteq> minipoolPerformancePath c"
  shows "precededBy (isWriteOk (minipoolPerformancePath c)) (isWrite (treePath c)) (taskEvents t c)"
  using assms publish_order [of c t]
  by (simp add: taskEvents_def generationTask_def publish_uniform
        handleError_def say_def emit_def emptyWorld_def
        Let_def precededBy_append precededBy_none
      split: option.splits)

lemma logs_neutral [simp]:
  "list_ex (isWrite q) (map (\<lambda>p. Log (f p)) xs) = False"
  "list_ex (isWriteOk q) (map (\<lambda>p. Log (f p)) xs) = False"
  "list_ex isPutOk (map (\<lambda>p. Log (f p)) xs) = False"
  "list_ex isPut (map (\<lambda>p. Log (f p)) xs) = False"
  "list_ex isGenerate (map (\<lambda>p. Log (f p)) xs) = False"
  by (induction xs; simp)+

lemma publish_order_put:
  assumes "nodeTrusted c" and "treePath c \<noteq> minipoolPerformancePath c"
  shows "precededBy isPutOk (isWrite (treePath c)) (publishEvents t c archive)"
  using assms
  by (simp add: publishEvents_def generateAndPublish_def upload_uniform save_uniform
        logInvalidNetworkNodes_trace writeFile_def handleError_def say_def emit_def emptyWorld_def
        Let_def case_prod_unfold precededBy_append precededBy_none upload_ok_put
      split: option.splits sum.splits writeFailure.splits)

lemma task_order_put:
  assumes "nodeTrusted c" and "treePath c \<noteq> minipoolPerformancePath c"
  shows "precededBy isPutOk (isWrite (treePath c)) (taskEvents t c)"
  using assms publish_order_put [of c t]
  by (simp add: taskEvents_def generationTask_def publish_uniform
        handleError_def say_def emit_def emptyWorld_def
        Let_def precededBy_append precededBy_none
      split: option.splits)

lemma save_files_tree:
  assumes "treePath c \<noteq> compressedPath c"
  shows "\<not> list_ex (isWrite (treePath c)) (saveEvents t c rf)
           \<longrightarrow> saveFiles t c rf (treePath c) = None"
  using assms
  by (simp add: saveFiles_def saveEvents_def saveAndSubmitTree_def upload_uniform submit_uniform
        writeFile_def handleError_def say_def emit_def emptyWorld_def uploadFiles_other
        Let_def case_prod_unfold map_add_def
      split: option.splits sum.splits writeFailure.splits)

lemma publish_files_tree:
  assumes "treePath c \<noteq> compressedPath c"
    and "treePath c \<noteq> compressedMinipoolPerformancePath c"
    and "treePath c \<noteq> minipoolPerformancePath c"
  shows "\<not> list_ex (isWrite (treePath c)) (publishEvents t c archive)
           \<longrightarrow> publishFiles t c archive (treePath c) = None"
  using assms
  by (simp add: publishFiles_def publishEvents_def generateAndPublish_def upload_uniform
        save_uniform logInvalidNetworkNodes_trace save_files_tree [rule_format]
        writeFile_def handleError_def say_def emit_def emptyWorld_def uploadFiles_other
        Let_def case_prod_unfold map_add_def
      split: option.splits sum.splits writeFailure.splits)

lemma task_files_tree:
  assumes "treePath c \<noteq> compressedPath c"
    and "treePath c \<noteq> compressedMinipoolPerformancePath c"
    and "treePath c \<noteq> minipoolPerformancePath c"
  shows "\<not> list_ex (isWrite (treePath c)) (taskEvents t c)
           \<longrightarrow> taskFiles t c (treePath c) = None"
  using assms
  by (simp add: taskFiles_def taskEvents_def generationTask_def publish_uniform
        publish_files_tree [rule_format]
        handleError_def say_def emit_def emptyWorld_def Let_def map_add_def
      split: option.splits)

subsection \<open>Order of the two files\<close>

lemma artifact_no_write:
  "list_ex (isWrite q) (new_events s (snd (run_artifact t a c s))) = False"
  by (simp add: run_artifact_def upload_uniform submit_uniform say_def emit_def Let_def
        case_prod_unfold new_events_def split: option.splits sum.splits)

lemma artifact_no_other_create:
  "q \<noteq> compressedPath c \<Longrightarrow>
     list_ex (isCreate q) (new_events s (snd (run_artifact t a c s))) = False"
  by (simp add: run_artifact_def upload_uniform submit_uniform say_def emit_def Let_def
        case_prod_unfold new_events_def upload_no_other_create split: option.splits sum.splits)

lemma artifact_other_files:
  "q \<noteq> compressedPath c \<Longrightarrow> files (snd (run_artifact t a c s)) q = files s q"
  by (simp add: run_artifact_def upload_uniform submit_uniform say_def emit_def Let_def
        case_prod_unfold uploadFiles_other map_add_def split: option.splits sum.splits)

text \<open>
  Claim C10. Let the four paths of the interval be distinct where it matters. In the
  events of the background task, every write of the rewards tree file comes after a
  successful write of the minipool performance file and, for a trusted node, after a
  successful upload. So when the tree file was absent before the task and is there after
  it, the performance file was written (and, for a trusted node, uploaded) by the same
  task. The resume path of \<^verbatim>\<open>run\<close> writes no file with \<^verbatim>\<open>WriteFile\<close>, creates no
  compressed performance file, and leaves both performance files as they are.
\<close>

theorem tree_file_after_performance_file:
  assumes "treePath c \<noteq> minipoolPerformancePath c"
    and "treePath c \<noteq> compressedPath c"
    and "treePath c \<noteq> compressedMinipoolPerformancePath c"
    and "minipoolPerformancePath c \<noteq> compressedPath c"
    and "compressedMinipoolPerformancePath c \<noteq> compressedPath c"
  shows "precededBy (isWriteOk (minipoolPerformancePath c)) (isWrite (treePath c))
           (new_events s (generationTask t c s))
       \<and> (nodeTrusted c \<longrightarrow>
            precededBy isPutOk (isWrite (treePath c)) (new_events s (generationTask t c s)))
       \<and> (files s (treePath c) = None \<and> files (generationTask t c s) (treePath c) \<noteq> None \<longrightarrow>
            list_ex (isWriteOk (minipoolPerformancePath c)) (new_events s (generationTask t c s))
            \<and> (nodeTrusted c \<longrightarrow> list_ex isPutOk (new_events s (generationTask t c s))))
       \<and> \<not> list_ex (isWrite (minipoolPerformancePath c)) (new_events s' (snd (run_artifact t a c s')))
       \<and> \<not> list_ex (isCreate (compressedMinipoolPerformancePath c))
             (new_events s' (snd (run_artifact t a c s')))
       \<and> files (snd (run_artifact t a c s')) (minipoolPerformancePath c)
           = files s' (minipoolPerformancePath c)
       \<and> files (snd (run_artifact t a c s')) (compressedMinipoolPerformancePath c)
           = files s' (compressedMinipoolPerformancePath c)"
proof -
  have ev: "new_events s (generationTask t c s) = taskEvents t c"
    by (subst task_uniform) (simp add: new_events_def)
  have fl: "files (generationTask t c s) = files s ++ taskFiles t c"
    by (subst task_uniform) simp
  have o1: "precededBy (isWriteOk (minipoolPerformancePath c)) (isWrite (treePath c)) (taskEvents t c)"
    using assms(1) by (rule task_order)
  have o2: "nodeTrusted c \<Longrightarrow> precededBy isPutOk (isWrite (treePath c)) (taskEvents t c)"
    using assms(1) by (simp add: task_order_put)
  have wr: "list_ex (isWrite (treePath c)) (taskEvents t c)"
    if "files s (treePath c) = None" "files (generationTask t c s) (treePath c) \<noteq> None"
  proof (rule ccontr)
    assume "\<not> list_ex (isWrite (treePath c)) (taskEvents t c)"
    then have "taskFiles t c (treePath c) = None"
      using task_files_tree [OF assms(2) assms(3) assms(1)] by blast
    with that show False by (simp add: fl map_add_def)
  qed
  show ?thesis
    using o1 o2 wr assms
    by (auto simp: ev artifact_no_write artifact_no_other_create artifact_other_files
          dest: precededBy_ex)
qed

lemma task0_tree_file: "files (generationTask t0 captured0 world0) ''tree'' = Some [1, 2, 3]"
  by (simp add: generationTask_def generateAndPublish_def saveAndSubmitTree_def
        uploadFileToWeb3Storage_def submitRewardsSnapshot_def writeFile_def handleError_def
        say_def emit_def Let_def t0_def cfg0_def ext0_def rp0_def wallet0_def captured0_def
        world0_def rf3_def)

theorem tree_file_after_performance_file_witness:
  "treePath captured0 \<noteq> minipoolPerformancePath captured0
   \<and> treePath captured0 \<noteq> compressedPath captured0
   \<and> treePath captured0 \<noteq> compressedMinipoolPerformancePath captured0
   \<and> minipoolPerformancePath captured0 \<noteq> compressedPath captured0
   \<and> compressedMinipoolPerformancePath captured0 \<noteq> compressedPath captured0
   \<and> nodeTrusted captured0
   \<and> files world0 (treePath captured0) = None
   \<and> files (generationTask t0 captured0 world0) (treePath captured0) \<noteq> None
   \<and> precededBy (isWriteOk ''perf'') (isWrite ''tree'')
        (new_events world0 (generationTask t0 captured0 world0))
   \<and> precededBy isPutOk (isWrite ''tree'') (new_events world0 (generationTask t0 captured0 world0))
   \<and> list_ex (isWriteOk ''perf'') (new_events world0 (generationTask t0 captured0 world0))
   \<and> list_ex isPutOk (new_events world0 (generationTask t0 captured0 world0))
   \<and> \<not> list_ex (isWrite ''perf'')
         (new_events world_stored (snd (run_artifact t0 [1] captured0 world_stored)))"
  using tree_file_after_performance_file [of captured0 world0 t0 world_stored "[1]"]
    task0_tree_file
  by (simp add: captured0_def world0_def)

subsection \<open>The stored tree file\<close>












subsection \<open>The execution block of the snapshot\<close>








subsection \<open>Arithmetic inside the range\<close>






lemma smod_nonneg: "0 \<le> a \<Longrightarrow> 0 < b \<Longrightarrow> a smod b = a mod (b :: int)"
  by (cases "a = 0") (simp_all add: signed_modulo_int_def)


subsection \<open>The interval clock\<close>





end
